theory Spec2Isabelle
  imports Complex_Main
begin

section \<open>Values, exceptions and responses\<close>

text \<open>
  The service (\<^verbatim>\<open>src/app.py\<close>) is a Flask application with one working handler,
  \<^verbatim>\<open>download_video\<close>. The handler is modelled as a function from the configuration, the
  request, the collaborators it calls (subprocess, temporary directory, storage client,
  library functions) and the state of the world to an outcome and the new world.

  A character of the model stands for one code point of a Python \<^verbatim>\<open>str\<close>.
\<close>

text \<open>
  A Python float read from JSON: only its exact value matters here (truthiness and
  \<^verbatim>\<open>int(...)\<close>), so a finite float is the rational it denotes.
\<close>

datatype pyfloat = Finite rat | PosInf | NegInf | NaN

text \<open>
  The Python values \<^verbatim>\<open>json.loads\<close> and \<^verbatim>\<open>request.get_json()\<close> produce, and
  \<^verbatim>\<open>jsonify\<close> consumes. \<open>JObj\<close> holds the items of a dict.
\<close>

datatype json =
    JNull
  | JBool bool
  | JInt int
  | JFloat pyfloat
  | JStr string
  | JArr "json list"
  | JObj "(string \<times> json) list"

datatype py_exn =
    AttributeError
  | TypeError
  | ValueError
  | OverflowError
  | OSError
  | JSONDecodeError
  | IndexError
  | HTTPException nat
  | OtherError string

text \<open>
  What a view function hands back to Flask: a JSON body with a status
  (\<^verbatim>\<open>return jsonify(...), status\<close>), or an exception that leaves the function.
\<close>

datatype outcome = Response nat json | Raised py_exn

text \<open>Python truthiness (\<^verbatim>\<open>not data\<close>, \<^verbatim>\<open>not data.get("url")\<close>).\<close>

fun truthy :: "json \<Rightarrow> bool" where
  "truthy JNull = False"
| "truthy (JBool b) = b"
| "truthy (JInt i) = (i \<noteq> 0)"
| "truthy (JFloat f) = (f \<noteq> Finite 0)"
| "truthy (JStr s) = (s \<noteq> [])"
| "truthy (JArr xs) = (xs \<noteq> [])"
| "truthy (JObj kv) = (kv \<noteq> [])"

section \<open>Configuration\<close>

text \<open>The module-level settings read from the environment (lines 23 to 27).\<close>

record config =
  MINIO_ENDPOINT :: string
  MINIO_ACCESS_KEY :: string
  MINIO_SECRET_KEY :: string
  MINIO_BUCKET :: string
  API_SECRET :: string

section \<open>Collaborators and the world\<close>

text \<open>The keyword arguments of \<^verbatim>\<open>boto3.client\<close> as \<^verbatim>\<open>get_s3_client\<close> passes them.\<close>

record s3_client =
  endpoint_url :: string
  aws_access_key_id :: string
  aws_secret_access_key :: string
  signature_version :: string
  region_name :: string

text \<open>The arguments of one \<^verbatim>\<open>s3.upload_file\<close> call.\<close>

record upload_args =
  Filename :: string
  Bucket :: string
  Key :: string
  ContentType :: string

text \<open>
  How \<^verbatim>\<open>subprocess.run(cmd, capture_output=True, text=True, timeout=600)\<close> ends:
  the timeout expires, another exception is raised (the tool is not on the path, say),
  or the process completes with a return code, its standard output and its standard error.
\<close>

datatype run_result =
    TimeoutExpired
  | RunRaised py_exn
  | Completed int string string

text \<open>
  Everything outside \<^verbatim>\<open>app.py\<close> that the handler calls, as parameters:
  \<^item> \<open>uuid4\<close>: \<^verbatim>\<open>str(uuid.uuid4())\<close>;
  \<^item> \<open>mkdtemp\<close>: the path of the directory \<^verbatim>\<open>tempfile.TemporaryDirectory()\<close> creates;
  \<^item> \<open>subprocess_run\<close>: the command and the timeout to the way the run ends and the
    listing of the temporary directory it leaves (file names with their sizes in bytes,
    in the order \<^verbatim>\<open>os.listdir\<close> gives them);
  \<^item> \<open>files_left_outside\<close>: the files the run of the command leaves anywhere else, by
    their paths, with their sizes (none when the \<^verbatim>\<open>-o\<close> template lies in the temporary
    directory and the tool writes nowhere else);
  \<^item> \<open>json_loads\<close>: \<^verbatim>\<open>json.loads\<close>, an exception or a value;
  \<^item> \<open>format_value\<close>: what an f-string writes for a value that is not a \<^verbatim>\<open>str\<close>;
  \<^item> \<open>int_of_str\<close>: \<^verbatim>\<open>int(s)\<close> of a string, \<open>None\<close> for \<^verbatim>\<open>ValueError\<close>;
  \<^item> \<open>boto3_client\<close>: \<open>Some msg\<close> when building the client raises an exception
    whose text is \<open>msg\<close>;
  \<^item> \<open>upload_file\<close>: \<open>Some msg\<close> when the upload raises an exception whose text
    is \<open>msg\<close>.
\<close>

record env =
  uuid4 :: string
  mkdtemp :: string
  subprocess_run :: "string list \<Rightarrow> nat \<Rightarrow> run_result \<times> (string \<times> nat) list"
  files_left_outside :: "string list \<Rightarrow> (string \<times> nat) list"
  json_loads :: "string \<Rightarrow> py_exn + json"
  format_value :: "json \<Rightarrow> string"
  int_of_str :: "string \<Rightarrow> int option"
  boto3_client :: "s3_client \<Rightarrow> string option"
  upload_file :: "s3_client \<Rightarrow> upload_args \<Rightarrow> string option"

text \<open>
  The world the handler changes: the temporary directories that exist with their files,
  the files that runs of the downloader have left outside their temporary directory, the
  directories \<^verbatim>\<open>TemporaryDirectory\<close> has created so far, and the
  \<^verbatim>\<open>upload_file\<close> calls made so far.
\<close>

record world =
  fs :: "string \<rightharpoonup> (string \<times> nat) list"
  outside :: "(string \<times> nat) list"
  created :: "string list"
  uploads :: "(s3_client \<times> upload_args) list"

text \<open>
  The request as the handler reads it: \<^verbatim>\<open>request.headers\<close>, and what
  \<^verbatim>\<open>request.get_json()\<close> does (it returns a value, \<open>JNull\<close> for \<^verbatim>\<open>None\<close>, or
  aborts with an HTTP error of the framework's).
\<close>

record request =
  headers :: "string \<rightharpoonup> string"
  get_json :: "py_exn + json"

section \<open>String helpers of the Python library\<close>

text \<open>\<^verbatim>\<open>s.rstrip("/")\<close>: every trailing occurrence of the character is removed.\<close>

definition rstrip :: "char \<Rightarrow> string \<Rightarrow> string" where
  "rstrip c s = rev (dropWhile (\<lambda>x. x = c) (rev s))"

text \<open>The characters \<^verbatim>\<open>str.strip()\<close> removes, among the code points below 256.\<close>

definition whitespace :: "char list" where
  "whitespace = [CHR 0x09, CHR 0x0A, CHR 0x0B, CHR 0x0C, CHR 0x0D, CHR 0x1C, CHR 0x1D,
     CHR 0x1E, CHR 0x1F, CHR 0x20, CHR 0x85, CHR 0xA0]"

definition strip :: "string \<Rightarrow> string" where
  "strip s = rev (dropWhile (\<lambda>x. x \<in> set whitespace) (rev (dropWhile (\<lambda>x. x \<in> set whitespace) s)))"

text \<open>\<^verbatim>\<open>s.split(c)\<close> for a one-character separator: never an empty list.\<close>

fun split :: "char \<Rightarrow> string \<Rightarrow> string list" where
  "split c [] = [[]]"
| "split c (x # xs) =
     (if x = c then [] # split c xs
      else (case split c xs of
              [] \<Rightarrow> [[x]]
            | y # ys \<Rightarrow> (x # y) # ys))"

text \<open>\<^verbatim>\<open>f.endswith(suffix)\<close>.\<close>

definition endswith :: "string \<Rightarrow> string \<Rightarrow> bool" where
  "endswith f suf = (length suf \<le> length f \<and> drop (length f - length suf) f = suf)"

text \<open>
  \<^verbatim>\<open>os.path.join(a, b)\<close> on POSIX: an absolute second part replaces the first.
\<close>

definition path_join :: "string \<Rightarrow> string \<Rightarrow> string" where
  "path_join a b =
     (if b \<noteq> [] \<and> hd b = CHR ''/'' then b
      else if a = [] \<or> last a = CHR ''/'' then a @ b
      else a @ ''/'' @ b)"

text \<open>What an f-string writes for a value: a \<^verbatim>\<open>str\<close> as it is.\<close>

definition py_str :: "env \<Rightarrow> json \<Rightarrow> string" where
  "py_str e v = (case v of JStr s \<Rightarrow> s | _ \<Rightarrow> format_value e v)"

text \<open>\<^verbatim>\<open>int(x)\<close> of a float: the fraction is cut off, towards zero.\<close>

definition trunc :: "rat \<Rightarrow> int" where
  "trunc r = (if 0 \<le> r then \<lfloor>r\<rfloor> else \<lceil>r\<rceil>)"

text \<open>\<^verbatim>\<open>int(x)\<close> with the exceptions it raises.\<close>

fun py_int :: "env \<Rightarrow> json \<Rightarrow> py_exn + int" where
  "py_int e JNull = Inl TypeError"
| "py_int e (JBool b) = Inr (if b then 1 else 0)"
| "py_int e (JInt i) = Inr i"
| "py_int e (JFloat (Finite r)) = Inr (trunc r)"
| "py_int e (JFloat PosInf) = Inl OverflowError"
| "py_int e (JFloat NegInf) = Inl OverflowError"
| "py_int e (JFloat NaN) = Inl ValueError"
| "py_int e (JStr s) = (case int_of_str e s of None \<Rightarrow> Inl ValueError | Some i \<Rightarrow> Inr i)"
| "py_int e (JArr xs) = Inl TypeError"
| "py_int e (JObj kv) = Inl TypeError"

section \<open>Routing\<close>

text \<open>
  The rules \<^verbatim>\<open>app.py\<close> registers with \<^verbatim>\<open>@app.route\<close> (lines 72 and 77), each with
  the methods it names and its view function.
\<close>

datatype http_method = GET | HEAD | POST | PUT | DELETE | OPTIONS | PATCH

datatype view = Health_view | Download_video_view

definition url_map :: "(string \<times> http_method list \<times> view) list" where
  "url_map =
     [(''/health'', [GET], Health_view),
      (''/api/download'', [POST], Download_video_view)]"

datatype routing = Dispatch view | AutomaticOptions | NotFound | MethodNotAllowed

text \<open>The methods that reach the view of a rule: Flask adds HEAD to a rule that names GET.\<close>

definition rule_methods :: "http_method list \<Rightarrow> http_method list" where
  "rule_methods ms = ms @ (if GET \<in> set ms \<and> HEAD \<notin> set ms then [HEAD] else [])"

text \<open>
  A request is dispatched to the view of the rule whose path is the request's path and
  whose methods hold the request's method. A path of no rule is 404. For a method the
  matching rules do not hold, OPTIONS is answered by Flask itself, without the view, and
  any other method is 405. Only the rules \<^verbatim>\<open>app.py\<close> registers are modelled, with
  paths compared as they are (the rule for static files that Flask adds and the redirects
  of its router are left out).
\<close>

definition dispatch :: "http_method \<Rightarrow> string \<Rightarrow> routing" where
  "dispatch m p =
     (case filter (\<lambda>(rule, ms, v). rule = p) url_map of
        [] \<Rightarrow> NotFound
      | rs \<Rightarrow> (case filter (\<lambda>(rule, ms, v). m \<in> set (rule_methods ms)) rs of
                 [] \<Rightarrow> if m = OPTIONS then AutomaticOptions else MethodNotAllowed
               | (rule, ms, v) # _ \<Rightarrow> Dispatch v))"

section \<open>The handler\<close>

text \<open>\<^verbatim>\<open>health\<close> (line 73).\<close>

definition health :: outcome where
  "health = Response 200 (JObj [(''status'', JStr ''ok'')])"

text \<open>\<^verbatim>\<open>get_s3_client\<close> (lines 59 to 69), up to the call of \<^verbatim>\<open>boto3.client\<close>.\<close>

definition get_s3_client :: "config \<Rightarrow> s3_client" where
  "get_s3_client cfg =
     \<lparr>endpoint_url = rstrip CHR ''/'' (MINIO_ENDPOINT cfg),
      aws_access_key_id = MINIO_ACCESS_KEY cfg,
      aws_secret_access_key = MINIO_SECRET_KEY cfg,
      signature_version = ''s3v4'',
      region_name = ''us-east-1''\<rparr>"

text \<open>The command line (lines 115 to 128).\<close>

definition yt_dlp_cmd :: "string \<Rightarrow> string \<Rightarrow> string list" where
  "yt_dlp_cmd output_path url =
     [''yt-dlp'',
      ''--no-playlist'',
      ''--js-runtimes'', ''node'',
      ''--force-ipv4'',
      ''--extractor-args'', ''youtube:player_client=web_music,web'',
      ''--user-agent'', ''Mozilla/5.0 (Windows NT 10.0; Win64; x64) AppleWebKit/537.36 (KHTML, like Gecko) Chrome/131.0.0.0 Safari/537.36'',
      ''-f'', ''bestvideo[ext=mp4]+bestaudio[ext=m4a]/best[ext=mp4]/best'',
      ''--merge-output-format'', ''mp4'',
      ''-o'', output_path,
      ''--no-progress'',
      ''--print-json'',
      url]"

text \<open>
  Lines 150 to 154: the last line of the stripped output is given to \<^verbatim>\<open>json.loads\<close>
  and \<^verbatim>\<open>.get("duration", 0)\<close> is called on the result. \<^verbatim>\<open>JSONDecodeError\<close> and
  \<^verbatim>\<open>IndexError\<close> are caught and give 0; a value that is not a dict has no \<^verbatim>\<open>get\<close>,
  and that \<^verbatim>\<open>AttributeError\<close> is not caught.
\<close>

definition parse_duration :: "env \<Rightarrow> string \<Rightarrow> py_exn + json" where
  "parse_duration e out =
     (case rev (split CHR 0x0A (strip out)) of
        [] \<Rightarrow> Inr (JInt 0)
      | line # _ \<Rightarrow>
          (case json_loads e line of
             Inl ex \<Rightarrow> if ex = JSONDecodeError \<or> ex = IndexError then Inr (JInt 0) else Inl ex
           | Inr metadata \<Rightarrow>
               (case metadata of
                  JObj m \<Rightarrow> Inr (case map_of m ''duration'' of None \<Rightarrow> JInt 0 | Some d \<Rightarrow> d)
                | _ \<Rightarrow> Inl AttributeError)))"

text \<open>The file names the scan keeps (line 159).\<close>

definition is_video :: "string \<Rightarrow> bool" where
  "is_video f = (endswith f ''.mp4'' \<or> endswith f ''.mkv'' \<or> endswith f ''.webm'')"

text \<open>Line 106: the identifier the request names, or the first 8 characters of a UUID.\<close>

definition resolve_video_id :: "env \<Rightarrow> (string \<times> json) list \<Rightarrow> json" where
  "resolve_video_id e kv =
     (case map_of kv ''videoId'' of None \<Rightarrow> JStr (take 8 (uuid4 e)) | Some v \<Rightarrow> v)"

text \<open>
  \<^verbatim>\<open>with tempfile.TemporaryDirectory() as tmpdir:\<close> the directory is created empty, the
  body runs, and the directory is removed with all it holds however the body ends. Nothing
  outside the directory is removed.
\<close>

definition with_TemporaryDirectory ::
  "env \<Rightarrow> world \<Rightarrow> (string \<Rightarrow> world \<Rightarrow> outcome \<times> world) \<Rightarrow> outcome \<times> world" where
  "with_TemporaryDirectory e w body =
     (let tmpdir = mkdtemp e;
          w1 = w\<lparr>fs := (fs w)(tmpdir \<mapsto> []), created := created w @ [tmpdir]\<rparr>;
          (r, w2) = body tmpdir w1
      in (r, w2\<lparr>fs := (fs w2)(tmpdir := None)\<rparr>))"

text \<open>
  Lines 165 to 190, entered with the first video file found: its size is read, the file is
  uploaded, and the success response is built.
\<close>

definition upload_and_respond ::
  "config \<Rightarrow> env \<Rightarrow> json \<Rightarrow> json \<Rightarrow> string \<Rightarrow> string \<Rightarrow> world \<Rightarrow> outcome \<times> world" where
  "upload_and_respond cfg e video_id duration tmpdir f w =
     (let local_file = path_join tmpdir f in
      case (case fs w tmpdir of None \<Rightarrow> None | Some files \<Rightarrow> map_of files f) of
        None \<Rightarrow> (Raised OSError, w)
      | Some file_size \<Rightarrow>
          (let object_key = ''youtube/'' @ py_str e video_id @ ''.mp4'';
               s3 = get_s3_client cfg
           in (case boto3_client e s3 of
                 Some msg \<Rightarrow>
                   (Response 500 (JObj [(''error'', JStr (''Upload to storage failed: '' @ msg))]), w)
               | None \<Rightarrow>
                   (let args = \<lparr>Filename = local_file, Bucket = MINIO_BUCKET cfg,
                                Key = object_key, ContentType = ''video/mp4''\<rparr>;
                        w1 = w\<lparr>uploads := uploads w @ [(s3, args)]\<rparr>
                    in (case upload_file e s3 args of
                          Some msg \<Rightarrow>
                            (Response 500
                               (JObj [(''error'', JStr (''Upload to storage failed: '' @ msg))]), w1)
                        | None \<Rightarrow>
                            (let source_url = rstrip CHR ''/'' (MINIO_ENDPOINT cfg) @ ''/''
                                                @ MINIO_BUCKET cfg @ ''/'' @ object_key
                             in (case py_int e duration of
                                   Inl ex \<Rightarrow> (Raised ex, w1)
                                 | Inr d \<Rightarrow>
                                     (Response 200
                                        (JObj [(''sourceUrl'', JStr source_url),
                                               (''duration'', JInt d),
                                               (''fileSize'', JInt (int file_size))]), w1))))))))"

text \<open>
  The body of the \<^verbatim>\<open>with\<close> block (lines 111 to 190). Joining the command for the log
  raises \<^verbatim>\<open>TypeError\<close> when the url is not a \<^verbatim>\<open>str\<close>. The run of the downloader
  leaves its files in the temporary directory and, when the output template points
  elsewhere, outside it.
\<close>

definition download_in_tmpdir ::
  "config \<Rightarrow> env \<Rightarrow> json \<Rightarrow> json \<Rightarrow> string \<Rightarrow> world \<Rightarrow> outcome \<times> world" where
  "download_in_tmpdir cfg e url video_id tmpdir w =
     (let output_path = path_join tmpdir (py_str e video_id @ ''.%(ext)s'') in
      case url of
        JStr u \<Rightarrow>
          (case subprocess_run e (yt_dlp_cmd output_path u) 600 of
             (res, files) \<Rightarrow>
               let w1 = w\<lparr>fs := (fs w)(tmpdir \<mapsto> files),
                          outside := outside w @ files_left_outside e (yt_dlp_cmd output_path u)\<rparr> in
               (case res of
                  TimeoutExpired \<Rightarrow>
                    (Response 504 (JObj [(''error'', JStr ''Download timed out (10 min limit)'')]), w1)
                | RunRaised ex \<Rightarrow> (Raised ex, w1)
                | Completed returncode out err \<Rightarrow>
                    if returncode \<noteq> 0
                    then (Response 500 (JObj [(''error'', JStr (''Download failed: '' @ take 500 err))]), w1)
                    else
                      (case parse_duration e out of
                         Inl ex \<Rightarrow> (Raised ex, w1)
                       | Inr duration \<Rightarrow>
                           (case filter is_video (map fst files) of
                              [] \<Rightarrow>
                                (Response 500 (JObj [(''error'', JStr ''No video file found after download'')]), w1)
                            | f # _ \<Rightarrow> upload_and_respond cfg e video_id duration tmpdir f w1))))
      | _ \<Rightarrow> (Raised TypeError, w))"

text \<open>Lines 101 to 190: validation of the body, then the download in its directory.\<close>

definition validate_and_download :: "config \<Rightarrow> env \<Rightarrow> request \<Rightarrow> world \<Rightarrow> outcome \<times> world" where
  "validate_and_download cfg e req w =
     (case get_json req of
        Inl ex \<Rightarrow> (Raised ex, w)
      | Inr data \<Rightarrow>
          if \<not> truthy data
          then (Response 400 (JObj [(''error'', JStr ''url is required'')]), w)
          else
            (case data of
               JObj kv \<Rightarrow>
                 (case map_of kv ''url'' of
                    None \<Rightarrow> (Response 400 (JObj [(''error'', JStr ''url is required'')]), w)
                  | Some url \<Rightarrow>
                      if \<not> truthy url
                      then (Response 400 (JObj [(''error'', JStr ''url is required'')]), w)
                      else with_TemporaryDirectory e w
                             (download_in_tmpdir cfg e url (resolve_video_id e kv)))
             | _ \<Rightarrow> (Raised AttributeError, w)))"

text \<open>
  Lines 96 to 99: the request passes when no secret is configured, or when its
  \<^verbatim>\<open>Authorization\<close> header (the empty string when absent) is the bearer string.
\<close>

definition authorized :: "config \<Rightarrow> request \<Rightarrow> bool" where
  "authorized cfg req =
     (API_SECRET cfg = [] \<or>
      (case headers req ''Authorization'' of None \<Rightarrow> [] | Some a \<Rightarrow> a)
        = ''Bearer '' @ API_SECRET cfg)"

text \<open>\<^verbatim>\<open>download_video\<close> (lines 78 to 190): the bearer check, then the rest.\<close>

definition download_video :: "config \<Rightarrow> env \<Rightarrow> request \<Rightarrow> world \<Rightarrow> outcome \<times> world" where
  "download_video cfg e req w =
     (if \<not> authorized cfg req
      then (Response 401 (JObj [(''error'', JStr ''Unauthorized'')]), w)
      else validate_and_download cfg e req w)"

section \<open>Example inputs\<close>

text \<open>
  A configuration with a secret, requests that carry the bearer header or not, an empty
  world, and collaborators that answer the same whatever they are asked. \<open>json_loads_ex\<close>
  agrees with \<^verbatim>\<open>json.loads\<close> on the four lines the examples use; the examples
  format no value that is not a string and convert no string to an integer, so
  \<open>format_value\<close> and \<open>int_of_str\<close> are never asked.
\<close>

definition cfg_ex :: config where
  "cfg_ex = \<lparr>MINIO_ENDPOINT = ''http://minio:9000/'', MINIO_ACCESS_KEY = ''minio'',
     MINIO_SECRET_KEY = ''minio123'', MINIO_BUCKET = ''source'', API_SECRET = ''s3cret''\<rparr>"

definition body_ex :: "string \<Rightarrow> json" where
  "body_ex vid = JObj [(''url'', JStr ''https://youtu.be/x''), (''videoId'', JStr vid)]"

definition req_ex :: "string \<Rightarrow> request" where
  "req_ex vid = \<lparr>headers = [''Authorization'' \<mapsto> ''Bearer s3cret''], get_json = Inr (body_ex vid)\<rparr>"

definition req_noauth :: request where
  "req_noauth = \<lparr>headers = Map.empty, get_json = Inr (body_ex ''abc'')\<rparr>"

definition world0 :: world where
  "world0 = \<lparr>fs = Map.empty, outside = [], created = [], uploads = []\<rparr>"

definition json_loads_ex :: "string \<Rightarrow> py_exn + json" where
  \<open>json_loads_ex s =
     (if s = ''{"duration": 12}'' then Inr (JObj [(''duration'', JInt 12)])
      else if s = ''{"duration": 12.5}'' then Inr (JObj [(''duration'', JFloat (Finite (25 / 2)))])
      else if s = ''{"duration": null}'' then Inr (JObj [(''duration'', JNull)])
      else if s = ''[]'' then Inr (JArr [])
      else Inl JSONDecodeError)\<close>

definition stdout_ex :: "string \<Rightarrow> string" where
  "stdout_ex line = ''[download] done'' @ [CHR 0x0A] @ line @ [CHR 0x0A]"

definition line_int :: string where
  \<open>line_int = ''{"duration": 12}''\<close>

definition line_float :: string where
  \<open>line_float = ''{"duration": 12.5}''\<close>

definition line_null :: string where
  \<open>line_null = ''{"duration": null}''\<close>

definition line_list :: string where
  "line_list = ''[]''"

definition env_ex :: "run_result \<Rightarrow> (string \<times> nat) list \<Rightarrow> env" where
  "env_ex res files =
     \<lparr>uuid4 = ''1b9d6bcd-bbfd-4b2d-9b5d-ab8dfbbd4bed'',
      mkdtemp = ''/tmp/tmpk3x9'',
      subprocess_run = (\<lambda>cmd t. (res, files)),
      files_left_outside = (\<lambda>cmd. []),
      json_loads = json_loads_ex,
      format_value = (\<lambda>v. ''?''),
      int_of_str = (\<lambda>s. None),
      boto3_client = (\<lambda>c. None),
      upload_file = (\<lambda>c a. None)\<rparr>"

text \<open>
  A downloader that writes where its \<^verbatim>\<open>-o\<close> template says: one file of 1000 bytes, the
  template with its last 7 characters, \<^verbatim>\<open>%(ext)s\<close>, replaced by \<^verbatim>\<open>mp4\<close>. The file
  is in the listing of the temporary directory when its path lies there, and is left
  outside otherwise.
\<close>

fun arg_after :: "string \<Rightarrow> string list \<Rightarrow> string option" where
  "arg_after k (x # y # xs) = (if x = k then Some y else arg_after k (y # xs))"
| "arg_after k xs = None"

fun strip_prefix :: "string \<Rightarrow> string \<Rightarrow> string option" where
  "strip_prefix [] s = Some s"
| "strip_prefix (p # ps) [] = None"
| "strip_prefix (p # ps) (c # cs) = (if p = c then strip_prefix ps cs else None)"

definition ytdlp_ex :: "string \<Rightarrow> string list \<Rightarrow> (string \<times> nat) list \<times> (string \<times> nat) list" where
  "ytdlp_ex tmpdir cmd =
     (case arg_after ''-o'' cmd of
        None \<Rightarrow> ([], [])
      | Some template \<Rightarrow>
          let path = rev (drop 7 (rev template)) @ ''mp4'' in
          (case strip_prefix (tmpdir @ ''/'') path of
             Some name \<Rightarrow> ([(name, 1000)], [])
           | None \<Rightarrow> ([], [(path, 1000)])))"

definition env_o :: env where
  "env_o =
     \<lparr>uuid4 = ''1b9d6bcd-bbfd-4b2d-9b5d-ab8dfbbd4bed'',
      mkdtemp = ''/tmp/tmpk3x9'',
      subprocess_run = (\<lambda>cmd t. (Completed 0 (stdout_ex line_int) [], fst (ytdlp_ex ''/tmp/tmpk3x9'' cmd))),
      files_left_outside = (\<lambda>cmd. snd (ytdlp_ex ''/tmp/tmpk3x9'' cmd)),
      json_loads = json_loads_ex,
      format_value = (\<lambda>v. ''?''),
      int_of_str = (\<lambda>s. None),
      boto3_client = (\<lambda>c. None),
      upload_file = (\<lambda>c a. None)\<rparr>"

section \<open>Facts about the helpers\<close>

lemmas ex_defs = cfg_ex_def req_ex_def req_noauth_def body_ex_def env_ex_def json_loads_ex_def
  stdout_ex_def line_int_def line_float_def line_null_def line_list_def

lemmas eval_defs = authorized_def parse_duration_def strip_def whitespace_def is_video_def
  endswith_def rstrip_def get_s3_client_def resolve_video_id_def py_str_def path_join_def

lemmas handler_defs = download_video_def validate_and_download_def with_TemporaryDirectory_def
  download_in_tmpdir_def upload_and_respond_def Let_def

text \<open>The output template is the argument after \<^verbatim>\<open>-o\<close>.\<close>

lemma arg_after_o: "arg_after ''-o'' (yt_dlp_cmd output_path url) = Some output_path"
  by (simp add: yt_dlp_cmd_def)

lemma split_not_Nil: "split c s \<noteq> []"
  by (induction s) (auto split: list.splits)

lemma upload_and_respond_frame:
  "fs (snd (upload_and_respond cfg e vid dur tmpdir f w)) = fs w \<and>
   created (snd (upload_and_respond cfg e vid dur tmpdir f w)) = created w"
  by (simp add: upload_and_respond_def Let_def split: option.splits sum.splits)

lemma upload_and_respond_uploads:
  "uploads (snd (upload_and_respond cfg e vid dur tmpdir f w)) = uploads w \<or>
   uploads (snd (upload_and_respond cfg e vid dur tmpdir f w)) =
     uploads w @ [(get_s3_client cfg,
       \<lparr>Filename = path_join tmpdir f, Bucket = MINIO_BUCKET cfg,
        Key = ''youtube/'' @ py_str e vid @ ''.mp4'', ContentType = ''video/mp4''\<rparr>)]"
  by (simp add: upload_and_respond_def Let_def split: option.splits sum.splits)

lemma upload_and_respond_200:
  assumes "fst (upload_and_respond cfg e vid dur tmpdir f w) = Response 200 body"
  shows "\<exists>d sz. body = JObj [(''sourceUrl'', JStr (rstrip CHR ''/'' (MINIO_ENDPOINT cfg) @ ''/''
            @ MINIO_BUCKET cfg @ ''/youtube/'' @ py_str e vid @ ''.mp4'')),
          (''duration'', JInt d), (''fileSize'', JInt sz)]"
  using assms
  by (auto simp: upload_and_respond_def Let_def split: option.splits sum.splits)

lemma download_in_tmpdir_frame:
  "created (snd (download_in_tmpdir cfg e url vid tmpdir w)) = created w"
  by (auto simp: download_in_tmpdir_def Let_def upload_and_respond_frame
      split: json.splits prod.splits run_result.splits sum.splits list.splits)

lemma download_in_tmpdir_uploads:
  "uploads (snd (download_in_tmpdir cfg e url vid tmpdir w)) = uploads w \<or>
   (\<exists>f. uploads (snd (download_in_tmpdir cfg e url vid tmpdir w)) =
     uploads w @ [(get_s3_client cfg,
       \<lparr>Filename = path_join tmpdir f, Bucket = MINIO_BUCKET cfg,
        Key = ''youtube/'' @ py_str e vid @ ''.mp4'', ContentType = ''video/mp4''\<rparr>)])"
proof (cases url)
  case (JStr u)
  obtain res files where run: "subprocess_run e (yt_dlp_cmd (path_join tmpdir (py_str e vid @ ''.%(ext)s'')) u) 600 = (res, files)"
    by (cases "subprocess_run e (yt_dlp_cmd (path_join tmpdir (py_str e vid @ ''.%(ext)s'')) u) 600")
  show ?thesis
    using upload_and_respond_uploads[of cfg e vid _ tmpdir _
        "w\<lparr>fs := (fs w)(tmpdir \<mapsto> files),
           outside := outside w @ files_left_outside e
             (yt_dlp_cmd (path_join tmpdir (py_str e vid @ ''.%(ext)s'')) u)\<rparr>"]
    by (auto simp: download_in_tmpdir_def Let_def JStr run
        split: run_result.splits sum.splits list.splits)
qed (simp_all add: download_in_tmpdir_def)

lemma download_in_tmpdir_200:
  assumes "fst (download_in_tmpdir cfg e url vid tmpdir w) = Response 200 body"
  shows "\<exists>d sz. body = JObj [(''sourceUrl'', JStr (rstrip CHR ''/'' (MINIO_ENDPOINT cfg) @ ''/''
            @ MINIO_BUCKET cfg @ ''/youtube/'' @ py_str e vid @ ''.mp4'')),
          (''duration'', JInt d), (''fileSize'', JInt sz)]"
  using assms
  by (auto simp: download_in_tmpdir_def Let_def
      split: json.splits prod.splits run_result.splits sum.splits list.splits if_splits
      dest: upload_and_respond_200)

lemma with_TemporaryDirectory_fst:
  "fst (with_TemporaryDirectory e w body) = fst (body (mkdtemp e) (w\<lparr>fs := (fs w)(mkdtemp e \<mapsto> []), created := created w @ [mkdtemp e]\<rparr>))"
  by (simp add: with_TemporaryDirectory_def Let_def split: prod.splits)

lemma with_TemporaryDirectory_snd:
  "snd (with_TemporaryDirectory e w body) =
     (snd (body (mkdtemp e) (w\<lparr>fs := (fs w)(mkdtemp e \<mapsto> []), created := created w @ [mkdtemp e]\<rparr>)))
       \<lparr>fs := (fs (snd (body (mkdtemp e) (w\<lparr>fs := (fs w)(mkdtemp e \<mapsto> []), created := created w @ [mkdtemp e]\<rparr>))))(mkdtemp e := None)\<rparr>"
  by (simp add: with_TemporaryDirectory_def Let_def split: prod.splits)

lemma download_video_enters:
  assumes "authorized cfg req"
    and "get_json req = Inr (JObj kv)"
    and "map_of kv ''url'' = Some (JStr u)"
    and "u \<noteq> []"
  shows "download_video cfg e req w =
           with_TemporaryDirectory e w (download_in_tmpdir cfg e (JStr u) (resolve_video_id e kv))"
proof -
  from assms(3) have "kv \<noteq> []" by auto
  with assms show ?thesis
    by (simp add: download_video_def validate_and_download_def)
qed


text \<open>The line read is the last one of the stripped output.\<close>

lemma parse_duration_last:
  "parse_duration e out =
     (case json_loads e (last (split CHR 0x0A (strip out))) of
        Inl ex \<Rightarrow> if ex = JSONDecodeError \<or> ex = IndexError then Inr (JInt 0) else Inl ex
      | Inr metadata \<Rightarrow>
          (case metadata of
             JObj m \<Rightarrow> Inr (case map_of m ''duration'' of None \<Rightarrow> JInt 0 | Some d \<Rightarrow> d)
           | _ \<Rightarrow> Inl AttributeError))"
proof (cases "split CHR 0x0A (strip out)" rule: rev_cases)
  case Nil
  then show ?thesis using split_not_Nil by blast
next
  case (snoc ys y)
  then show ?thesis by (simp add: parse_duration_def)
qed

text \<open>
  The handler either leaves the world as it was and answers something other than 200, or
  it runs the body of the \<^verbatim>\<open>with\<close> block.
\<close>

lemma validate_and_download_cases:
  "(validate_and_download cfg e req w = (fst (validate_and_download cfg e req w), w)
      \<and> (\<forall>body. fst (validate_and_download cfg e req w) \<noteq> Response 200 body))
   \<or> (\<exists>url kv. validate_and_download cfg e req w =
         with_TemporaryDirectory e w (download_in_tmpdir cfg e url (resolve_video_id e kv))
         \<and> get_json req = Inr (JObj kv))"
  by (auto simp: validate_and_download_def split: sum.splits json.splits option.splits)

lemma download_video_cases:
  "(download_video cfg e req w = (fst (download_video cfg e req w), w)
      \<and> (\<forall>body. fst (download_video cfg e req w) \<noteq> Response 200 body))
   \<or> (\<exists>url kv. download_video cfg e req w =
         with_TemporaryDirectory e w (download_in_tmpdir cfg e url (resolve_video_id e kv))
         \<and> get_json req = Inr (JObj kv))"
  using validate_and_download_cases [of cfg e req w]
  by (auto simp: download_video_def)

section \<open>The claims\<close>

subsection \<open>C1: the success response\<close>

text \<open>
  C1, amended. When the request passes the bearer check, its body is an object with a
  non-empty string url, the downloader completes with return code 0, the metadata step
  yields a value, a video file is found, the client is built, the upload succeeds and the
  value converts to an integer, the response is 200 and its body is exactly: sourceUrl, the
  endpoint without its trailing slashes, then the bucket, then \<^verbatim>\<open>/youtube/{id}.mp4\<close>
  for the working identifier; fileSize, the size of the first video file of the listing,
  read before the upload; duration, the integer \<^verbatim>\<open>int(...)\<close> makes of the duration
  member of the JSON object on the last output line (a fraction is cut off), 0 when the
  object has no such member, and 0 when the line is not JSON.
\<close>

theorem full_success_response:
  assumes "authorized cfg req"
    and "get_json req = Inr (JObj kv)"
    and "map_of kv ''url'' = Some (JStr u)"
    and "u \<noteq> []"
    and "subprocess_run e
           (yt_dlp_cmd (path_join (mkdtemp e) (py_str e (resolve_video_id e kv) @ ''.%(ext)s'')) u)
           600 = (Completed 0 out err, files)"
    and "parse_duration e out = Inr duration"
    and "filter is_video (map fst files) = f # rest"
    and "map_of files f = Some file_size"
    and "boto3_client e (get_s3_client cfg) = None"
    and "upload_file e (get_s3_client cfg)
           \<lparr>Filename = path_join (mkdtemp e) f, Bucket = MINIO_BUCKET cfg,
            Key = ''youtube/'' @ py_str e (resolve_video_id e kv) @ ''.mp4'',
            ContentType = ''video/mp4''\<rparr> = None"
    and "py_int e duration = Inr d"
  shows "fst (download_video cfg e req w) =
           Response 200 (JObj
             [(''sourceUrl'', JStr (rstrip CHR ''/'' (MINIO_ENDPOINT cfg) @ ''/'' @ MINIO_BUCKET cfg
                 @ ''/youtube/'' @ py_str e (resolve_video_id e kv) @ ''.mp4'')),
              (''duration'', JInt d),
              (''fileSize'', JInt (int file_size))])
         \<and> (\<forall>ex. json_loads e (last (split CHR 0x0A (strip out))) = Inl ex \<longrightarrow> d = 0)
         \<and> (\<forall>m. json_loads e (last (split CHR 0x0A (strip out))) = Inr (JObj m) \<longrightarrow>
               py_int e (case map_of m ''duration'' of None \<Rightarrow> JInt 0 | Some v \<Rightarrow> v) = Inr d)"
proof -
  have enter: "download_video cfg e req w =
      with_TemporaryDirectory e w (download_in_tmpdir cfg e (JStr u) (resolve_video_id e kv))"
    using assms(1-4) by (rule download_video_enters)
  have resp: "fst (download_video cfg e req w) =
           Response 200 (JObj
             [(''sourceUrl'', JStr (rstrip CHR ''/'' (MINIO_ENDPOINT cfg) @ ''/'' @ MINIO_BUCKET cfg
                 @ ''/youtube/'' @ py_str e (resolve_video_id e kv) @ ''.mp4'')),
              (''duration'', JInt d),
              (''fileSize'', JInt (int file_size))])"
    unfolding enter with_TemporaryDirectory_fst
    using assms(5-11)
    by (simp add: download_in_tmpdir_def upload_and_respond_def Let_def)
  have undec: "d = 0" if "json_loads e (last (split CHR 0x0A (strip out))) = Inl ex" for ex
    using that assms(6,11) by (auto simp: parse_duration_last split: if_splits)
  have obj: "py_int e (case map_of m ''duration'' of None \<Rightarrow> JInt 0 | Some v \<Rightarrow> v) = Inr d"
    if "json_loads e (last (split CHR 0x0A (strip out))) = Inr (JObj m)" for m
    using that assms(6,11) by (auto simp: parse_duration_last)
  from resp undec obj show ?thesis by blast
qed




text \<open>C1, an instance: an integer duration of 12 seconds and a file of 1000 bytes.\<close>

theorem full_success_response_witness:
  "authorized cfg_ex (req_ex ''abc'') \<and>
   fst (download_video cfg_ex
          (env_ex (Completed 0 (stdout_ex line_int) []) [(''abc.f137.part'', 10), (''abc.mp4'', 1000)])
          (req_ex ''abc'') world0) =
     Response 200 (JObj
       [(''sourceUrl'', JStr ''http://minio:9000/source/youtube/abc.mp4''),
        (''duration'', JInt 12),
        (''fileSize'', JInt 1000)])"
proof -
  let ?files = "[(''abc.f137.part'', 10::nat), (''abc.mp4'', 1000)]"
  let ?e = "env_ex (Completed 0 (stdout_ex line_int) []) ?files"
  let ?kv = "[(''url'', JStr ''https://youtu.be/x''), (''videoId'', JStr ''abc'')]"
  have a: "authorized cfg_ex (req_ex ''abc'')"
    by (simp add: ex_defs eval_defs)
  have b: "get_json (req_ex ''abc'') = Inr (JObj ?kv)"
    by (simp add: ex_defs)
  have c: "map_of ?kv ''url'' = Some (JStr ''https://youtu.be/x'')"
    by simp
  have d: "''https://youtu.be/x'' \<noteq> []"
    by simp
  have r: "subprocess_run ?e
      (yt_dlp_cmd (path_join (mkdtemp ?e) (py_str ?e (resolve_video_id ?e ?kv) @ ''.%(ext)s''))
         ''https://youtu.be/x'') 600 = (Completed 0 (stdout_ex line_int) [], ?files)"
    by (simp add: env_ex_def)
  have p: "parse_duration ?e (stdout_ex line_int) = Inr (JInt 12)"
    by (simp add: ex_defs eval_defs)
  have v: "filter is_video (map fst ?files) = ''abc.mp4'' # []"
    by (simp add: eval_defs)
  have s: "map_of ?files ''abc.mp4'' = Some 1000"
    by simp
  have k: "boto3_client ?e (get_s3_client cfg_ex) = None"
    by (simp add: env_ex_def)
  have u: "upload_file ?e (get_s3_client cfg_ex)
      \<lparr>Filename = path_join (mkdtemp ?e) ''abc.mp4'', Bucket = MINIO_BUCKET cfg_ex,
       Key = ''youtube/'' @ py_str ?e (resolve_video_id ?e ?kv) @ ''.mp4'',
       ContentType = ''video/mp4''\<rparr> = None"
    by (simp add: env_ex_def)
  have i: "py_int ?e (JInt 12) = Inr 12"
    by simp
  from full_success_response [OF a b c d r p v s k u i, of world0] a
  show ?thesis
    by (simp add: cfg_ex_def eval_defs)
qed


text \<open>Half a second is cut off.\<close>

lemma trunc_example: "trunc (25 / 2) = 12"
  by code_simp

text \<open>
  C1 as stated fails: with \<^verbatim>\<open>{"duration": 12.5}\<close> on the last line the parsed duration
  is 12.5 and the response says 12.
\<close>

theorem duration_truncated_counterexample:
  "fst (download_video cfg_ex
          (env_ex (Completed 0 (stdout_ex line_float) []) [(''abc.mp4'', 1000)])
          (req_ex ''abc'') world0) =
     Response 200 (JObj
       [(''sourceUrl'', JStr ''http://minio:9000/source/youtube/abc.mp4''),
        (''duration'', JInt 12),
        (''fileSize'', JInt 1000)])
   \<and> parse_duration (env_ex (Completed 0 (stdout_ex line_float) []) [(''abc.mp4'', 1000)])
         (stdout_ex line_float) = Inr (JFloat (Finite (25 / 2)))
   \<and> JInt 12 \<noteq> JFloat (Finite (25 / 2))"
  by (simp add: handler_defs ex_defs eval_defs trunc_example)

subsection \<open>C2: a duration that cannot be recovered\<close>

text \<open>
  C2 does not hold of the code. With \<^verbatim>\<open>[]\<close> on the last line \<^verbatim>\<open>json.loads\<close>
  succeeds, the list has no \<^verbatim>\<open>get\<close>, and the \<^verbatim>\<open>AttributeError\<close> leaves the
  handler: no response with duration 0 is built. With \<^verbatim>\<open>{"duration": null}\<close> the
  value is \<^verbatim>\<open>None\<close>, the file is uploaded, and \<^verbatim>\<open>int(None)\<close> raises
  \<^verbatim>\<open>TypeError\<close> after the upload.
\<close>

theorem parse_failure_fatal:
  "download_video cfg_ex
     (env_ex (Completed 0 (stdout_ex line_list) []) [(''abc.mp4'', 1000)])
     (req_ex ''abc'') world0
     = (Raised AttributeError, world0\<lparr>created := [''/tmp/tmpk3x9'']\<rparr>)
   \<and> fst (download_video cfg_ex
          (env_ex (Completed 0 (stdout_ex line_null) []) [(''abc.mp4'', 1000)])
          (req_ex ''abc'') world0) = Raised TypeError
   \<and> map (Key \<circ> snd) (uploads (snd (download_video cfg_ex
          (env_ex (Completed 0 (stdout_ex line_null) []) [(''abc.mp4'', 1000)])
          (req_ex ''abc'') world0))) = [''youtube/abc.mp4'']"
  by (simp add: handler_defs ex_defs eval_defs world0_def)

text \<open>
  What the code does treat as non-fatal: a last line that \<^verbatim>\<open>json.loads\<close> rejects
  gives the duration 0, and an object without a duration member does too.
\<close>

lemma undecodable_line_duration_0:
  assumes "json_loads e (last (split CHR 0x0A (strip out))) = Inl JSONDecodeError
           \<or> (\<exists>m. json_loads e (last (split CHR 0x0A (strip out))) = Inr (JObj m)
                  \<and> map_of m ''duration'' = None)"
  shows "parse_duration e out = Inr (JInt 0)"
  using assms by (auto simp: parse_duration_last)

subsection \<open>C3: the route\<close>

text \<open>C3 as stated fails: no rule has the path \<^verbatim>\<open>/download\<close>, a POST to it is a 404.\<close>

theorem route_counterexample: "dispatch POST ''/download'' = NotFound"
  by (simp add: dispatch_def url_map_def rule_methods_def)

text \<open>
  C3, amended. The download operation is exposed at the route POST
  \<^verbatim>\<open>/api/download\<close>, and at no other method and path.
\<close>

theorem download_route:
  "dispatch m p = Dispatch Download_video_view \<longleftrightarrow> m = POST \<and> p = ''/api/download''"
  by (auto simp: dispatch_def url_map_def rule_methods_def split: list.splits if_splits)

text \<open>C3, an instance: the POST to \<^verbatim>\<open>/api/download\<close> reaches the view.\<close>

theorem download_route_witness:
  "dispatch POST ''/api/download'' = Dispatch Download_video_view"
  using download_route [of POST "''/api/download''"] by simp

subsection \<open>C4: the bearer check\<close>

text \<open>
  C4. With a secret configured, a request whose \<^verbatim>\<open>Authorization\<close> header is absent
  or is not \<^verbatim>\<open>Bearer <secret>\<close> gets 401 and nothing else happens; a request that
  carries exactly that header is handled as the validation and the download pipeline
  handle it.
\<close>

theorem bearer_check:
  assumes "API_SECRET cfg \<noteq> []"
  shows "(headers req ''Authorization'' \<noteq> Some (''Bearer '' @ API_SECRET cfg) \<longrightarrow>
            download_video cfg e req w = (Response 401 (JObj [(''error'', JStr ''Unauthorized'')]), w))
       \<and> (headers req ''Authorization'' = Some (''Bearer '' @ API_SECRET cfg) \<longrightarrow>
            download_video cfg e req w = validate_and_download cfg e req w)"
  using assms by (auto simp: download_video_def authorized_def split: option.splits)

text \<open>
  C4, an instance: without the header the answer is 401; with it the request goes on, here
  to a download that times out.
\<close>

theorem bearer_check_witness:
  "API_SECRET cfg_ex \<noteq> []
   \<and> headers req_noauth ''Authorization'' \<noteq> Some (''Bearer '' @ API_SECRET cfg_ex)
   \<and> download_video cfg_ex (env_ex TimeoutExpired []) req_noauth world0
       = (Response 401 (JObj [(''error'', JStr ''Unauthorized'')]), world0)
   \<and> headers (req_ex ''abc'') ''Authorization'' = Some (''Bearer '' @ API_SECRET cfg_ex)
   \<and> download_video cfg_ex (env_ex TimeoutExpired []) (req_ex ''abc'') world0
       = validate_and_download cfg_ex (env_ex TimeoutExpired []) (req_ex ''abc'') world0
   \<and> fst (download_video cfg_ex (env_ex TimeoutExpired []) (req_ex ''abc'') world0)
       = Response 504 (JObj [(''error'', JStr ''Download timed out (10 min limit)'')])"
proof -
  have s: "API_SECRET cfg_ex \<noteq> []" by (simp add: cfg_ex_def)
  have n: "headers req_noauth ''Authorization'' \<noteq> Some (''Bearer '' @ API_SECRET cfg_ex)"
    by (simp add: req_noauth_def)
  have y: "headers (req_ex ''abc'') ''Authorization'' = Some (''Bearer '' @ API_SECRET cfg_ex)"
    by (simp add: req_ex_def cfg_ex_def)
  have t: "fst (validate_and_download cfg_ex (env_ex TimeoutExpired []) (req_ex ''abc'') world0)
       = Response 504 (JObj [(''error'', JStr ''Download timed out (10 min limit)'')])"
    by (simp add: handler_defs ex_defs eval_defs)
  from bearer_check [OF s, of req_noauth "env_ex TimeoutExpired []" world0]
       bearer_check [OF s, of "req_ex ''abc''" "env_ex TimeoutExpired []" world0] s n y t
  show ?thesis by simp
qed

subsection \<open>C5: a missing url\<close>

text \<open>
  C5 does not hold of the code for a body that is not an object. The JSON body
  \<^verbatim>\<open>[1]\<close> has no url; it is truthy, so \<^verbatim>\<open>data.get\<close> is called on a list and
  \<^verbatim>\<open>AttributeError\<close> leaves the handler: there is no 400 response.
\<close>

theorem non_object_body_raises:
  "download_video (cfg\<lparr>API_SECRET := []\<rparr>) e \<lparr>headers = Map.empty, get_json = Inr (JArr [JInt 1])\<rparr> w
     = (Raised AttributeError, w)"
  by (simp add: download_video_def authorized_def validate_and_download_def)

text \<open>
  What the code does answer with 400: a falsy body (none, \<^verbatim>\<open>{}\<close>, \<^verbatim>\<open>[]\<close>, 0,
  the empty string), and an object whose url is missing or falsy.
\<close>

lemma missing_url_400:
  assumes "authorized cfg req"
    and "get_json req = Inr data"
    and "\<not> truthy data \<or> (\<exists>kv. data = JObj kv \<and> (case map_of kv ''url'' of None \<Rightarrow> True | Some u \<Rightarrow> \<not> truthy u))"
  shows "download_video cfg e req w = (Response 400 (JObj [(''error'', JStr ''url is required'')]), w)"
  using assms
  by (auto simp: download_video_def validate_and_download_def split: option.splits)


subsection \<open>C6: the timeout\<close>

text \<open>
  C6. When the downloader, run with the timeout of 600 seconds, ends by that timeout, the
  response is 504 and no upload call is made.
\<close>

theorem timeout_504_no_upload:
  assumes "authorized cfg req"
    and "get_json req = Inr (JObj kv)"
    and "map_of kv ''url'' = Some (JStr u)"
    and "u \<noteq> []"
    and "subprocess_run e
           (yt_dlp_cmd (path_join (mkdtemp e) (py_str e (resolve_video_id e kv) @ ''.%(ext)s'')) u)
           600 = (TimeoutExpired, files)"
  shows "fst (download_video cfg e req w) =
           Response 504 (JObj [(''error'', JStr ''Download timed out (10 min limit)'')])
         \<and> uploads (snd (download_video cfg e req w)) = uploads w"
  unfolding download_video_enters [OF assms(1-4)]
  using assms(5)
  by (simp add: with_TemporaryDirectory_def download_in_tmpdir_def Let_def)

text \<open>C6, an instance: the run times out and leaves a partial file.\<close>

theorem timeout_504_no_upload_witness:
  "authorized cfg_ex (req_ex ''abc'')
   \<and> fst (download_video cfg_ex (env_ex TimeoutExpired [(''abc.mp4.part'', 512)]) (req_ex ''abc'') world0) =
           Response 504 (JObj [(''error'', JStr ''Download timed out (10 min limit)'')])
   \<and> uploads (snd (download_video cfg_ex (env_ex TimeoutExpired [(''abc.mp4.part'', 512)])
                     (req_ex ''abc'') world0)) = []"
proof -
  let ?e = "env_ex TimeoutExpired [(''abc.mp4.part'', 512)]"
  let ?kv = "[(''url'', JStr ''https://youtu.be/x''), (''videoId'', JStr ''abc'')]"
  have a: "authorized cfg_ex (req_ex ''abc'')"
    by (simp add: ex_defs eval_defs)
  have b: "get_json (req_ex ''abc'') = Inr (JObj ?kv)"
    by (simp add: ex_defs)
  have c: "map_of ?kv ''url'' = Some (JStr ''https://youtu.be/x'')"
    by simp
  have d: "''https://youtu.be/x'' \<noteq> []"
    by simp
  have r: "subprocess_run ?e
      (yt_dlp_cmd (path_join (mkdtemp ?e) (py_str ?e (resolve_video_id ?e ?kv) @ ''.%(ext)s''))
         ''https://youtu.be/x'') 600 = (TimeoutExpired, [(''abc.mp4.part'', 512)])"
    by (simp add: env_ex_def)
  from timeout_504_no_upload [OF a b c d r, of world0] a
  show ?thesis by (simp add: world0_def)
qed

subsection \<open>C7: a failed download\<close>

text \<open>
  C7. When the downloader exits with a return code other than 0, the response is 500, its
  error text is \<^verbatim>\<open>Download failed: \<close> followed by the first 500 characters of the
  standard error (all of it when it is shorter), and no upload call is made.
\<close>

theorem nonzero_exit_500_no_upload:
  assumes "authorized cfg req"
    and "get_json req = Inr (JObj kv)"
    and "map_of kv ''url'' = Some (JStr u)"
    and "u \<noteq> []"
    and "subprocess_run e
           (yt_dlp_cmd (path_join (mkdtemp e) (py_str e (resolve_video_id e kv) @ ''.%(ext)s'')) u)
           600 = (Completed returncode out err, files)"
    and "returncode \<noteq> 0"
  shows "fst (download_video cfg e req w) =
           Response 500 (JObj [(''error'', JStr (''Download failed: '' @ take 500 err))])
         \<and> length (take 500 err) \<le> 500
         \<and> uploads (snd (download_video cfg e req w)) = uploads w"
  unfolding download_video_enters [OF assms(1-4)]
  using assms(5,6)
  by (simp add: with_TemporaryDirectory_def download_in_tmpdir_def Let_def)

text \<open>C7, an instance: of 501 characters of standard error 500 are echoed.\<close>

theorem nonzero_exit_500_no_upload_witness:
  "authorized cfg_ex (req_ex ''abc'')
   \<and> fst (download_video cfg_ex (env_ex (Completed 1 [] (replicate 501 CHR ''E'')) [])
            (req_ex ''abc'') world0) =
           Response 500 (JObj [(''error'', JStr (''Download failed: '' @ replicate 500 CHR ''E''))])
   \<and> uploads (snd (download_video cfg_ex (env_ex (Completed 1 [] (replicate 501 CHR ''E'')) [])
                     (req_ex ''abc'') world0)) = []"
proof -
  let ?e = "env_ex (Completed 1 [] (replicate 501 CHR ''E'')) []"
  let ?kv = "[(''url'', JStr ''https://youtu.be/x''), (''videoId'', JStr ''abc'')]"
  have a: "authorized cfg_ex (req_ex ''abc'')"
    by (simp add: ex_defs eval_defs)
  have b: "get_json (req_ex ''abc'') = Inr (JObj ?kv)"
    by (simp add: ex_defs)
  have c: "map_of ?kv ''url'' = Some (JStr ''https://youtu.be/x'')"
    by simp
  have d: "''https://youtu.be/x'' \<noteq> []"
    by simp
  have r: "subprocess_run ?e
      (yt_dlp_cmd (path_join (mkdtemp ?e) (py_str ?e (resolve_video_id ?e ?kv) @ ''.%(ext)s''))
         ''https://youtu.be/x'') 600 = (Completed 1 [] (replicate 501 CHR ''E''), [])"
    by (simp add: env_ex_def)
  have n: "(1::int) \<noteq> 0" by simp
  from nonzero_exit_500_no_upload [OF a b c d r n, of world0] a
  show ?thesis by (simp add: world0_def)
qed

subsection \<open>C8: no video file\<close>

text \<open>
  C8 does not hold of the code for every output. The metadata step runs before the scan
  of the directory: with return code 0, no video file and \<^verbatim>\<open>[]\<close> on the last line,
  \<^verbatim>\<open>AttributeError\<close> leaves the handler and no response with an error field is built.
\<close>

theorem no_video_file_parse_raises:
  "fst (download_video cfg_ex
          (env_ex (Completed 0 (stdout_ex line_list) []) [(''abc.part'', 10)])
          (req_ex ''abc'') world0) = Raised AttributeError
   \<and> filter is_video (map fst [(''abc.part'', 10::nat)]) = []"
  by (simp add: handler_defs ex_defs eval_defs)

text \<open>
  When the metadata step yields a value and no file of the listing is a video file, the
  response is 500 with its error field and no upload call is made.
\<close>

lemma no_video_file_500:
  assumes "authorized cfg req"
    and "get_json req = Inr (JObj kv)"
    and "map_of kv ''url'' = Some (JStr u)"
    and "u \<noteq> []"
    and "subprocess_run e
           (yt_dlp_cmd (path_join (mkdtemp e) (py_str e (resolve_video_id e kv) @ ''.%(ext)s'')) u)
           600 = (Completed 0 out err, files)"
    and "parse_duration e out = Inr duration"
    and "filter is_video (map fst files) = []"
  shows "fst (download_video cfg e req w) =
           Response 500 (JObj [(''error'', JStr ''No video file found after download'')])
         \<and> uploads (snd (download_video cfg e req w)) = uploads w"
  unfolding download_video_enters [OF assms(1-4)]
  using assms(5-7)
  by (simp add: with_TemporaryDirectory_def download_in_tmpdir_def Let_def)

subsection \<open>C9: the temporary directory\<close>

text \<open>
  C9 does not hold of the code. The videoId \<^verbatim>\<open>/var/tmp/abc\<close> is absolute, so
  \<^verbatim>\<open>os.path.join\<close> at line 111 drops the temporary directory and the output template
  is \<^verbatim>\<open>/var/tmp/abc.%(ext)s\<close>. A downloader that writes where the template says stages
  the video at \<^verbatim>\<open>/var/tmp/abc.mp4\<close>; the scan of the temporary directory finds nothing,
  the response is 500, the temporary directory is removed, and the staged file is still
  there when the handler is left.
\<close>

theorem staged_file_survives:
  "path_join (mkdtemp env_o) (''/var/tmp/abc'' @ ''.%(ext)s'') = ''/var/tmp/abc.%(ext)s''
   \<and> download_video cfg_ex env_o (req_ex ''/var/tmp/abc'') world0 =
       (Response 500 (JObj [(''error'', JStr ''No video file found after download'')]),
        world0\<lparr>outside := [(''/var/tmp/abc.mp4'', 1000)], created := [''/tmp/tmpk3x9'']\<rparr>)"
  by (simp add: handler_defs ex_defs eval_defs env_o_def ytdlp_ex_def arg_after_o world0_def)

text \<open>
  The same downloader with the videoId \<^verbatim>\<open>abc\<close>: the file is staged in the temporary
  directory, uploaded, and nothing is left.
\<close>

lemma staged_file_removed_example:
  "download_video cfg_ex env_o (req_ex ''abc'') world0 =
     (Response 200 (JObj
        [(''sourceUrl'', JStr ''http://minio:9000/source/youtube/abc.mp4''),
         (''duration'', JInt 12),
         (''fileSize'', JInt 1000)]),
      world0\<lparr>created := [''/tmp/tmpk3x9''],
        uploads := [(get_s3_client cfg_ex,
          \<lparr>Filename = ''/tmp/tmpk3x9/abc.mp4'', Bucket = ''source'', Key = ''youtube/abc.mp4'',
           ContentType = ''video/mp4''\<rparr>)]\<rparr>)"
  by (simp add: handler_defs ex_defs eval_defs env_o_def ytdlp_ex_def arg_after_o world0_def)

text \<open>
  What the code does guarantee: a request that creates its temporary directory creates
  exactly that one, and when the handler is left (by a success response, an error response
  or an exception) that directory is gone with the files in it. The files a run has left
  outside it are not touched.
\<close>

lemma tmpdir_itself_removed:
  assumes "created (snd (download_video cfg e req w)) \<noteq> created w"
  shows "created (snd (download_video cfg e req w)) = created w @ [mkdtemp e]
         \<and> fs (snd (download_video cfg e req w)) (mkdtemp e) = None"
proof -
  from download_video_cases [of cfg e req w] assms
  obtain url kv where run: "download_video cfg e req w =
      with_TemporaryDirectory e w (download_in_tmpdir cfg e url (resolve_video_id e kv))"
    by (metis snd_conv)
  show ?thesis
    unfolding run with_TemporaryDirectory_snd
    using download_in_tmpdir_frame [of cfg e url "resolve_video_id e kv" "mkdtemp e"
        "w\<lparr>fs := (fs w)(mkdtemp e \<mapsto> []), created := created w @ [mkdtemp e]\<rparr>"]
    by simp
qed

lemma tmpdir_itself_removed_example:
  "created (snd (download_video cfg_ex
      (env_ex (Completed 0 (stdout_ex line_list) []) [(''abc.mp4'', 1000)]) (req_ex ''abc'') world0))
     \<noteq> created world0
   \<and> fst (download_video cfg_ex
      (env_ex (Completed 0 (stdout_ex line_list) []) [(''abc.mp4'', 1000)]) (req_ex ''abc'') world0)
     = Raised AttributeError
   \<and> created (snd (download_video cfg_ex
      (env_ex (Completed 0 (stdout_ex line_list) []) [(''abc.mp4'', 1000)]) (req_ex ''abc'') world0))
     = [''/tmp/tmpk3x9'']
   \<and> fs (snd (download_video cfg_ex
      (env_ex (Completed 0 (stdout_ex line_list) []) [(''abc.mp4'', 1000)]) (req_ex ''abc'') world0))
       ''/tmp/tmpk3x9'' = None"
proof -
  let ?e = "env_ex (Completed 0 (stdout_ex line_list) []) [(''abc.mp4'', 1000)]"
  have c: "created (snd (download_video cfg_ex ?e (req_ex ''abc'') world0)) \<noteq> created world0"
    by (simp add: handler_defs ex_defs eval_defs world0_def)
  have r: "fst (download_video cfg_ex ?e (req_ex ''abc'') world0) = Raised AttributeError"
    by (simp add: handler_defs ex_defs eval_defs)
  have m: "mkdtemp ?e = ''/tmp/tmpk3x9''" "created world0 = []"
    by (simp_all add: env_ex_def world0_def)
  from tmpdir_itself_removed [OF c] c r m show ?thesis by simp
qed

lemma outside_never_removed:
  "\<exists>left. outside (snd (download_video cfg e req w)) = outside w @ left"
proof -
  have up: "outside (snd (upload_and_respond cfg e vid dur tmpdir f w')) = outside w'"
    for vid dur tmpdir f w'
    by (simp add: upload_and_respond_def Let_def split: option.splits sum.splits)
  have body: "\<exists>left. outside (snd (download_in_tmpdir cfg e url vid tmpdir w')) = outside w' @ left"
    for url vid tmpdir w'
    by (auto simp: download_in_tmpdir_def Let_def up
        split: json.splits prod.splits run_result.splits sum.splits list.splits)
  from download_video_cases [of cfg e req w]
  show ?thesis
  proof
    assume "download_video cfg e req w = (fst (download_video cfg e req w), w)
      \<and> (\<forall>body. fst (download_video cfg e req w) \<noteq> Response 200 body)"
    then have "outside (snd (download_video cfg e req w)) = outside w @ []"
      by (metis append_Nil2 snd_conv)
    then show ?thesis by blast
  next
    assume "\<exists>url kv. download_video cfg e req w =
         with_TemporaryDirectory e w (download_in_tmpdir cfg e url (resolve_video_id e kv))
         \<and> get_json req = Inr (JObj kv)"
    then obtain url kv where run: "download_video cfg e req w =
         with_TemporaryDirectory e w (download_in_tmpdir cfg e url (resolve_video_id e kv))"
      by blast
    show ?thesis
      unfolding run with_TemporaryDirectory_snd
      using body [of url "resolve_video_id e kv" "mkdtemp e"
          "w\<lparr>fs := (fs w)(mkdtemp e \<mapsto> []), created := created w @ [mkdtemp e]\<rparr>"]
      by simp
  qed
qed

subsection \<open>C10: an empty videoId\<close>

text \<open>
  C10. When the body holds the key videoId with the empty string, the working identifier
  is that empty string (whenever the key is present its value is the identifier, the
  random default is not used): every upload call the request makes has the object key
  \<^verbatim>\<open>youtube/.mp4\<close>, and the sourceUrl of a success response ends in
  \<^verbatim>\<open>/youtube/.mp4\<close>.
\<close>

theorem empty_videoId_verbatim:
  assumes "get_json req = Inr (JObj kv)"
    and "map_of kv ''videoId'' = Some (JStr [])"
  shows "resolve_video_id e kv = JStr []
         \<and> (\<forall>kv' v. map_of kv' ''videoId'' = Some v \<longrightarrow> resolve_video_id e kv' = v)
         \<and> (\<forall>c \<in> set (drop (length (uploads w)) (uploads (snd (download_video cfg e req w)))).
               Key (snd c) = ''youtube/.mp4'')
         \<and> (\<forall>items. fst (download_video cfg e req w) = Response 200 (JObj items) \<longrightarrow>
               map_of items ''sourceUrl'' =
                 Some (JStr (rstrip CHR ''/'' (MINIO_ENDPOINT cfg) @ ''/'' @ MINIO_BUCKET cfg
                         @ ''/youtube/.mp4'')))"
proof -
  have id: "resolve_video_id e kv = JStr []"
    using assms(2) by (simp add: resolve_video_id_def)
  have verbatim: "\<forall>kv' v. map_of kv' ''videoId'' = Some v \<longrightarrow> resolve_video_id e kv' = v"
    by (simp add: resolve_video_id_def)
  from download_video_cases [of cfg e req w]
  show ?thesis
  proof
    assume same: "download_video cfg e req w = (fst (download_video cfg e req w), w)
      \<and> (\<forall>body. fst (download_video cfg e req w) \<noteq> Response 200 body)"
    then have "uploads (snd (download_video cfg e req w)) = uploads w"
      by (metis snd_conv)
    with same id verbatim show ?thesis by simp
  next
    assume "\<exists>url kv. download_video cfg e req w =
         with_TemporaryDirectory e w (download_in_tmpdir cfg e url (resolve_video_id e kv))
         \<and> get_json req = Inr (JObj kv)"
    then obtain url where run: "download_video cfg e req w =
         with_TemporaryDirectory e w (download_in_tmpdir cfg e url (JStr []))"
      using assms(1) id by auto
    let ?w1 = "w\<lparr>fs := (fs w)(mkdtemp e \<mapsto> []), created := created w @ [mkdtemp e]\<rparr>"
    have keys: "\<forall>c \<in> set (drop (length (uploads w)) (uploads (snd (download_video cfg e req w)))).
               Key (snd c) = ''youtube/.mp4''"
      unfolding run with_TemporaryDirectory_snd
      using download_in_tmpdir_uploads [of cfg e url "JStr []" "mkdtemp e" ?w1]
      by (auto simp: py_str_def)
    have url200: "map_of items ''sourceUrl'' =
                 Some (JStr (rstrip CHR ''/'' (MINIO_ENDPOINT cfg) @ ''/'' @ MINIO_BUCKET cfg
                         @ ''/youtube/.mp4''))"
      if "fst (download_video cfg e req w) = Response 200 (JObj items)" for items
      using that download_in_tmpdir_200 [of cfg e url "JStr []" "mkdtemp e" ?w1 "JObj items"]
      unfolding run with_TemporaryDirectory_fst
      by (auto simp: py_str_def)
    from id verbatim keys url200 show ?thesis by blast
  qed
qed

text \<open>C10, an instance: the file \<^verbatim>\<open>.mp4\<close> is uploaded under \<^verbatim>\<open>youtube/.mp4\<close>.\<close>

theorem empty_videoId_verbatim_witness:
  "get_json (req_ex []) = Inr (JObj [(''url'', JStr ''https://youtu.be/x''), (''videoId'', JStr [])])
   \<and> map (Key \<circ> snd) (uploads (snd (download_video cfg_ex
        (env_ex (Completed 0 (stdout_ex line_int) []) [(''.mp4'', 1000)]) (req_ex []) world0)))
       = [''youtube/.mp4'']
   \<and> fst (download_video cfg_ex
        (env_ex (Completed 0 (stdout_ex line_int) []) [(''.mp4'', 1000)]) (req_ex []) world0)
       = Response 200 (JObj
           [(''sourceUrl'', JStr ''http://minio:9000/source/youtube/.mp4''),
            (''duration'', JInt 12),
            (''fileSize'', JInt 1000)])"
proof -
  let ?e = "env_ex (Completed 0 (stdout_ex line_int) []) [(''.mp4'', 1000)]"
  let ?kv = "[(''url'', JStr ''https://youtu.be/x''), (''videoId'', JStr [])]"
  have b: "get_json (req_ex []) = Inr (JObj ?kv)"
    by (simp add: ex_defs)
  have v: "map_of ?kv ''videoId'' = Some (JStr [])"
    by simp
  have r: "download_video cfg_ex ?e (req_ex []) world0 =
     (Response 200 (JObj
           [(''sourceUrl'', JStr ''http://minio:9000/source/youtube/.mp4''),
            (''duration'', JInt 12),
            (''fileSize'', JInt 1000)]),
      world0\<lparr>created := [''/tmp/tmpk3x9''],
        uploads := [(get_s3_client cfg_ex,
          \<lparr>Filename = ''/tmp/tmpk3x9/.mp4'', Bucket = ''source'', Key = ''youtube/.mp4'',
           ContentType = ''video/mp4''\<rparr>)]\<rparr>)"
    by (simp add: handler_defs ex_defs eval_defs world0_def)
  from empty_videoId_verbatim [OF b v, of ?e world0 cfg_ex] b r
  show ?thesis by simp
qed

end
